theory Spec2Isabelle
  imports Main "HOL-Library.Sublist"
begin

section \<open>Python values and strings\<close>

text \<open>
  The service (\<^verbatim>\<open>src/app.py\<close>) is a FastAPI wrapper around the \<^verbatim>\<open>yt_dlp\<close>
  extractor. Its two handlers, \<^verbatim>\<open>download\<close> and \<^verbatim>\<open>get_file\<close>, are embedded
  below. Strings are \<^typ>\<open>string\<close> (lists of 8-bit characters); the values found in
  the extractor's info dictionary are \<^verbatim>\<open>None\<close>, integers and strings.
  Floating-point entries of the dictionary are outside the model.
\<close>

datatype pyval = PNone | PInt int | PStr string

text \<open>Truth value testing, as used by \<^verbatim>\<open>x or y\<close> and \<^verbatim>\<open>a if x else b\<close>.\<close>

fun truthy :: "pyval \<Rightarrow> bool" where
  "truthy PNone = False"
| "truthy (PInt n) = (n \<noteq> 0)"
| "truthy (PStr s) = (s \<noteq> [])"

definition py_or :: "pyval \<Rightarrow> pyval \<Rightarrow> pyval" where
  "py_or a b = (if truthy a then a else b)"

text \<open>\<^verbatim>\<open>d.get(key)\<close> and \<^verbatim>\<open>d.get(key, default)\<close>: the default replaces a missing
  key only; a key stored with the value \<^verbatim>\<open>None\<close> yields \<^verbatim>\<open>None\<close>.\<close>

type_synonym info_dict = "string \<rightharpoonup> pyval"

definition get :: "info_dict \<Rightarrow> string \<Rightarrow> pyval \<Rightarrow> pyval" where
  "get d k dflt = (case d k of None \<Rightarrow> dflt | Some v \<Rightarrow> v)"

subsection \<open>Decimal rendering of integers\<close>

definition digit_char :: "nat \<Rightarrow> char" where
  "digit_char d = ''0123456789'' ! d"

fun str_nat :: "nat \<Rightarrow> string" where
  "str_nat n = (if n < 10 then [digit_char n] else str_nat (n div 10) @ [digit_char (n mod 10)])"

declare str_nat.simps [simp del]

definition str_int :: "int \<Rightarrow> string" where
  "str_int i = (if i < 0 then CHR ''-'' # str_nat (nat (- i)) else str_nat (nat i))"

text \<open>\<^verbatim>\<open>str(v)\<close>, which is also what an f-string replacement field without a format
  specification inserts.\<close>

fun py_str :: "pyval \<Rightarrow> string" where
  "py_str PNone = ''None''"
| "py_str (PInt n) = str_int n"
| "py_str (PStr s) = s"

text \<open>The format specification \<^verbatim>\<open>02d\<close>: minimum width two, padded with zeros after
  the sign.\<close>

definition format_02d :: "int \<Rightarrow> string" where
  "format_02d i = (if 0 \<le> i \<and> i < 10 then CHR ''0'' # str_int i else str_int i)"

subsection \<open>Case folding and substring test\<close>

text \<open>\<^verbatim>\<open>str.lower()\<close> on the ASCII range: the letters \<^verbatim>\<open>A\<close>--\<^verbatim>\<open>Z\<close> move to
  \<^verbatim>\<open>a\<close>--\<^verbatim>\<open>z\<close>, every other character stays. The lower-cased message is only
  searched for ASCII phrases and never returned, so the bytes of a non-ASCII character
  need not be folded.\<close>

definition lower_char :: "char \<Rightarrow> char" where
  "lower_char c =
     (case map_of (zip ''ABCDEFGHIJKLMNOPQRSTUVWXYZ'' ''abcdefghijklmnopqrstuvwxyz'') c of
        None \<Rightarrow> c
      | Some l \<Rightarrow> l)"

definition lower :: "string \<Rightarrow> string" where
  "lower s = map lower_char s"

text \<open>\<^verbatim>\<open>sub in s\<close> for strings: \<^verbatim>\<open>sub\<close> occurs in \<^verbatim>\<open>s\<close> as a contiguous block.\<close>

definition py_in :: "string \<Rightarrow> string \<Rightarrow> bool" where
  "py_in sub s = sublist sub s"

subsection \<open>Paths\<close>

text \<open>\<^verbatim>\<open>os.path.join(a, b)\<close> of \<^verbatim>\<open>posixpath\<close> for two components: an absolute
  \<^verbatim>\<open>b\<close> replaces \<^verbatim>\<open>a\<close>; otherwise a separator is inserted unless \<^verbatim>\<open>a\<close> is empty
  or already ends with one.\<close>

definition os_path_join :: "string \<Rightarrow> string \<Rightarrow> string" where
  "os_path_join a b =
     (if prefix ''/'' b then b
      else if a = [] \<or> suffix ''/'' a then a @ b
      else a @ ''/'' @ b)"

definition DOWNLOAD_DIR :: string where
  "DOWNLOAD_DIR = ''downloads''"

subsection \<open>The megabyte figure\<close>

text \<open>
  \<^verbatim>\<open>round(filesize/1024/1024, 2)\<close> followed by \<^verbatim>\<open>str\<close>. For an integer below
  \<open>2^53\<close> in absolute value both divisions by 1024 are exact in binary64, \<^verbatim>\<open>round\<close>
  rounds the exact quotient to the nearest multiple of one hundredth (a tie goes to the
  even hundredth) and returns the double nearest to it, and \<^verbatim>\<open>str\<close> prints the
  shortest decimal that reads back as that double: the integer part, a point, and one
  or two decimals. The computation is therefore written with integers, counting
  hundredths; it is the Python result on that range of sizes. From \<open>2^53\<close> on the
  quotient is rounded to 53 bits before it is rounded to hundredths, large values print
  in exponent notation and the largest raise \<^verbatim>\<open>OverflowError\<close>: the integer
  computation is not the Python result there, and every statement below that names
  the digits of a size carries the bound.
\<close>

definition round_half_even :: "int \<Rightarrow> int \<Rightarrow> int" where
  "round_half_even p q =
     (let k = p div q; r = p mod q
      in if 2 * r < q then k
         else if q < 2 * r then k + 1
         else if even k then k else k + 1)"

definition mb_hundredths :: "int \<Rightarrow> int" where
  "mb_hundredths n = round_half_even (\<bar>n\<bar> * 100) (1024 * 1024)"

definition str_hundredths :: "int \<Rightarrow> string" where
  "str_hundredths h =
     str_int (h div 100) @ ''.'' @
     (let f = nat (h mod 100)
      in if f mod 10 = 0 then [digit_char (f div 10)]
         else [digit_char (f div 10), digit_char (f mod 10)])"

definition str_round_mb :: "int \<Rightarrow> string" where
  "str_round_mb n = (if n < 0 then ''-'' else []) @ str_hundredths (mb_hundredths n)"

section \<open>The extractor, the file store and the responses\<close>

text \<open>
  \<^verbatim>\<open>yt_dlp\<close> is an external library. An extraction either raises
  \<^verbatim>\<open>yt_dlp.DownloadError\<close>, raises some other exception, or returns the info
  dictionary; each exception carries its message \<^verbatim>\<open>str(e)\<close>.
\<close>

datatype exc = DownloadError string | OtherException string

record ydl_opts =
  format :: string
  outtmpl :: string
  noplaylist :: bool
  no_warnings :: bool
  extractaudio :: bool
  audioformat :: string
  embed_subs :: bool
  writesubtitles :: bool
  writeautomaticsub :: bool

text \<open>
  The library's behaviour is a parameter of the model: given the options, the URL, the
  \<^verbatim>\<open>download\<close> flag and the set of paths that exist, it yields an outcome and the
  set of paths that exist afterwards.
\<close>

type_synonym extractor =
  "ydl_opts \<Rightarrow> string \<Rightarrow> bool \<Rightarrow> string set \<Rightarrow> (exc + info_dict) \<times> string set"

text \<open>
  The state threaded through a request: the paths for which \<^verbatim>\<open>os.path.exists\<close>
  holds, and the log of the calls \<^verbatim>\<open>ydl.extract_info(url, download=flag)\<close> made so
  far.
\<close>

record world =
  files :: "string set"
  calls :: "(string \<times> bool) list"

definition extract_info ::
  "extractor \<Rightarrow> ydl_opts \<Rightarrow> string \<Rightarrow> bool \<Rightarrow> world \<Rightarrow> (exc + info_dict) \<times> world" where
  "extract_info ydl opts url dl w =
     (case ydl opts url dl (files w) of
        (r, fs) \<Rightarrow> (r, \<lparr>files = fs, calls = calls w @ [(url, dl)]\<rparr>))"

text \<open>
  A response object is a \<^verbatim>\<open>JSONResponse\<close> (the body, a dictionary in the order it
  is written, and the status code, 200 unless given) or a \<^verbatim>\<open>FileResponse\<close> (path,
  filename, media type, headers). \<open>status_code\<close> is the code a \<^verbatim>\<open>JSONResponse\<close> was
  built with, which is the status it is sent with. It says nothing about a
  \<^verbatim>\<open>FileResponse\<close>: what that one is answered with is decided when it is sent (see
  \<open>sent_status\<close> below).
\<close>

datatype response =
  JSONResponse (content: "(string \<times> pyval) list") (status_code: nat)
| FileResponse string string string "(string \<times> string) list"

text \<open>The value a JSON body stores under a key.\<close>

fun field :: "response \<Rightarrow> string \<Rightarrow> pyval option" where
  "field (JSONResponse body code) k = map_of body k"
| "field (FileResponse path filename media_type headers) k = None"

definition error_response :: "string \<Rightarrow> nat \<Rightarrow> response" where
  "error_response msg code = JSONResponse [(''error'', PStr msg)] code"

section \<open>The handler \<^verbatim>\<open>download\<close>\<close>

text \<open>The options built at lines 32--44 from the request's identifier.\<close>

definition output_path :: "string \<Rightarrow> string" where
  "output_path video_id = os_path_join DOWNLOAD_DIR (video_id @ ''.%(ext)s'')"

definition ydl_opts :: "string \<Rightarrow> ydl_opts" where
  "ydl_opts video_id =
     \<lparr>format = ''best[height<=720]/best'',
      outtmpl = output_path video_id,
      noplaylist = True,
      no_warnings = False,
      extractaudio = False,
      audioformat = ''mp3'',
      embed_subs = False,
      writesubtitles = False,
      writeautomaticsub = False\<rparr>"

text \<open>Lines 53--66: the handler of a \<^verbatim>\<open>DownloadError\<close> raised by the probing call.\<close>

definition probe_failed :: "string \<Rightarrow> response" where
  "probe_failed e =
     (let error_msg = lower e
      in if py_in ''private video'' error_msg \<or> py_in ''sign in'' error_msg then
           error_response ''This video is private or requires authentication.'' 400
         else if py_in ''video unavailable'' error_msg then
           error_response ''This video is unavailable or has been removed.'' 400
         else if py_in ''live stream'' error_msg \<and> py_in ''not available'' error_msg then
           error_response ''Live streams cannot be downloaded while they are ongoing.'' 400
         else if py_in ''age-restricted'' error_msg then
           error_response ''This video is age-restricted and cannot be downloaded.'' 400
         else
           error_response (''Cannot access this video: '' @ e) 400)"

text \<open>Lines 103--105: the handler of every other exception.\<close>

definition unexpected :: "string \<Rightarrow> response" where
  "unexpected e = error_response (''An unexpected error occurred: '' @ e) 500"

text \<open>
  Line 97, the value stored under \<^verbatim>\<open>"duration"\<close>:
  \<^verbatim>\<open>f"{duration // 60}:{duration % 60:02d}" if duration else "Unknown"\<close>.
  Only an integer has a floor division by 60; on any other value the operator raises
  \<^verbatim>\<open>TypeError\<close>.
\<close>

fun type_name :: "pyval \<Rightarrow> string" where
  "type_name PNone = ''NoneType''"
| "type_name (PInt n) = ''int''"
| "type_name (PStr s) = ''str''"

definition quoted :: "string \<Rightarrow> string" where
  "quoted s = CHR 0x27 # s @ [CHR 0x27]"

definition TypeError :: "string \<Rightarrow> pyval \<Rightarrow> exc" where
  "TypeError opr v =
     OtherException (''unsupported operand type(s) for '' @ opr @ '': '' @
       quoted (type_name v) @ '' and '' @ quoted ''int'')"

definition duration_text :: "pyval \<Rightarrow> exc + string" where
  "duration_text duration =
     (if truthy duration then
        (case duration of
           PInt d \<Rightarrow> Inr (str_int (d div 60) @ '':'' @ format_02d (d mod 60))
         | _ \<Rightarrow> Inl (TypeError ''//'' duration))
      else Inr ''Unknown'')"

text \<open>
  Line 98, the value stored under \<^verbatim>\<open>"fileSize"\<close>:
  \<^verbatim>\<open>f"{round(filesize/1024/1024, 2)} MB" if filesize else "Unknown"\<close>.
\<close>

definition fileSize_text :: "pyval \<Rightarrow> exc + string" where
  "fileSize_text filesize =
     (if truthy filesize then
        (case filesize of
           PInt n \<Rightarrow> Inr (str_round_mb n @ '' MB'')
         | _ \<Rightarrow> Inl (TypeError ''/'' filesize))
      else Inr ''Unknown'')"

text \<open>\<^verbatim>\<open>str(e)\<close> of a caught exception.\<close>

fun message :: "exc \<Rightarrow> string" where
  "message (DownloadError e) = e"
| "message (OtherException e) = e"

text \<open>Lines 77 and 82: the extension and the path whose existence is tested.\<close>

definition ext_of :: "info_dict \<Rightarrow> pyval" where
  "ext_of info = get info ''ext'' (PStr ''mp4'')"

definition final_file :: "string \<Rightarrow> info_dict \<Rightarrow> string" where
  "final_file video_id info = os_path_join DOWNLOAD_DIR (video_id @ ''.'' @ py_str (ext_of info))"

text \<open>
  Lines 74--101: what follows a fetch that returned \<^verbatim>\<open>info\<close>, given the paths that
  exist at that moment. The entries of the dictionary literal are evaluated in the order
  written, so a failing \<^verbatim>\<open>"duration"\<close> is raised before \<^verbatim>\<open>"fileSize"\<close> is
  looked at; either exception reaches the handler of line 103.
\<close>

definition respond :: "string \<Rightarrow> string \<Rightarrow> string \<Rightarrow> info_dict \<Rightarrow> string set \<Rightarrow> response" where
  "respond BASE_URL video_id url info fs =
     (let title = get info ''title'' (PStr ''Unknown title'');
          thumbnail = get info ''thumbnail'' PNone;
          ext = ext_of info;
          filesize = py_or (get info ''filesize'' PNone) (get info ''filesize_approx'' PNone);
          platform = get info ''extractor'' (PStr ''Unknown'');
          duration = get info ''duration'' PNone
      in if final_file video_id info \<notin> fs then
           error_response ''Download completed but file not found. Please try again.'' 500
         else
           (case duration_text duration of
              Inl e \<Rightarrow> unexpected (message e)
            | Inr duration_str \<Rightarrow>
               (case fileSize_text filesize of
                  Inl e \<Rightarrow> unexpected (message e)
                | Inr fileSize_str \<Rightarrow>
                    JSONResponse
                      [(''id'', PStr video_id),
                       (''title'', title),
                       (''thumbnail'', thumbnail),
                       (''url'', PStr url),
                       (''platform'', platform),
                       (''quality'', get info ''format_note'' (PStr ''best available'')),
                       (''format'', ext),
                       (''duration'', PStr duration_str),
                       (''fileSize'', PStr fileSize_str),
                       (''downloadUrl'',
                          PStr (BASE_URL @ ''/file/'' @ video_id @ ''.'' @ py_str ext))]
                      200)))"

text \<open>
  Lines 30--105. \<^verbatim>\<open>video_id\<close> is the string of the UUID drawn at line 31 and
  \<^verbatim>\<open>BASE_URL\<close> the module constant of line 27; both are parameters here.
\<close>

definition download :: "string \<Rightarrow> extractor \<Rightarrow> string \<Rightarrow> string \<Rightarrow> world \<Rightarrow> response \<times> world" where
  "download BASE_URL ydl video_id url w =
     (case extract_info ydl (ydl_opts video_id) url False w of
        (Inl (DownloadError e), w1) \<Rightarrow> (probe_failed e, w1)
      | (Inl (OtherException e), w1) \<Rightarrow> (unexpected e, w1)
      | (Inr probed, w1) \<Rightarrow>
          (case extract_info ydl (ydl_opts video_id) url True w1 of
             (Inl (DownloadError e), w2) \<Rightarrow>
               (error_response (''Download failed: '' @ e) 500, w2)
           | (Inl (OtherException e), w2) \<Rightarrow> (unexpected e, w2)
           | (Inr info, w2) \<Rightarrow> (respond BASE_URL video_id url info (files w2), w2)))"

section \<open>The handler \<^verbatim>\<open>get_file\<close>\<close>

text \<open>
  The handler builds its answer with the framework's \<^verbatim>\<open>FileResponse(...)\<close>
  (Starlette, not part of the repository). The call encodes every header name and value
  as Latin-1 and raises \<^verbatim>\<open>UnicodeEncodeError\<close> when one cannot be encoded. Strings
  stand for their UTF-8 bytes, so the code points up to U+00FF are the strings all of
  whose bytes are below \<open>0xC4\<close>.
\<close>

datatype raised = UnicodeEncodeError

definition latin_1 :: "string \<Rightarrow> bool" where
  "latin_1 s = list_all (\<lambda>c. (of_char c :: nat) < 196) s"

definition file_response ::
  "string \<Rightarrow> string \<Rightarrow> string \<Rightarrow> (string \<times> string) list \<Rightarrow> raised + response" where
  "file_response path filename media_type headers =
     (if list_all (\<lambda>(k, v). latin_1 k \<and> latin_1 v) headers
      then Inr (FileResponse path filename media_type headers)
      else Inl UnicodeEncodeError)"

text \<open>
  Lines 107--117. \<open>fs\<close> holds the paths for which \<^verbatim>\<open>os.path.exists\<close> is true:
  regular files and directories alike. The handler has no \<^verbatim>\<open>try\<close>, so an exception
  of the call leaves it.
\<close>

definition get_file :: "string \<Rightarrow> string set \<Rightarrow> raised + response" where
  "get_file filename fs =
     (let file_path = os_path_join DOWNLOAD_DIR filename
      in if file_path \<in> fs then
           file_response file_path filename ''application/octet-stream''
             [(''Content-Disposition'', ''attachment; filename='' @ filename)]
         else Inr (JSONResponse [(''error'', PStr ''File not found'')] 404))"




section \<open>The classification table of the specification\<close>

text \<open>
  The specification gives the probe-stage classification as an ordered table over the
  lower-cased message, the first matching row winning, with a generic row when none
  matches. It is written here as the specification words it, to be compared with
  \<^const>\<open>probe_failed\<close>.
\<close>

definition classification_table :: "((string \<Rightarrow> bool) \<times> string) list" where
  "classification_table =
     [(\<lambda>m. py_in ''private video'' m \<or> py_in ''sign in'' m,
         ''This video is private or requires authentication.''),
      (\<lambda>m. py_in ''video unavailable'' m,
         ''This video is unavailable or has been removed.''),
      (\<lambda>m. py_in ''live stream'' m \<and> py_in ''not available'' m,
         ''Live streams cannot be downloaded while they are ongoing.''),
      (\<lambda>m. py_in ''age-restricted'' m,
         ''This video is age-restricted and cannot be downloaded.'')]"

fun first_match :: "((string \<Rightarrow> bool) \<times> string) list \<Rightarrow> string \<Rightarrow> string option" where
  "first_match [] m = None"
| "first_match ((matches, label) # rows) m =
     (if matches m then Some label else first_match rows m)"

definition classified :: "string \<Rightarrow> string" where
  "classified e =
     (case first_match classification_table (lower e) of
        Some label \<Rightarrow> label
      | None \<Rightarrow> ''Cannot access this video: '' @ e)"

section \<open>Sample extractors\<close>

text \<open>
  An extractor that answers the probing call with \<open>probed\<close> and the downloading call
  with \<open>fetched\<close>, the latter leaving the paths \<open>written\<close> behind.
\<close>

definition sample_ydl :: "exc + info_dict \<Rightarrow> exc + info_dict \<Rightarrow> string set \<Rightarrow> extractor" where
  "sample_ydl probed fetched written opts url dl fs =
     (if dl then (fetched, fs \<union> written) else (probed, fs))"

definition w0 :: world where
  "w0 = \<lparr>files = {}, calls = []\<rparr>"

definition sample_info :: info_dict where
  "sample_info =
     [''ext'' \<mapsto> PStr ''webm'', ''duration'' \<mapsto> PInt 125, ''filesize'' \<mapsto> PInt 1572864]"

definition failing_probe :: "string \<Rightarrow> extractor" where
  "failing_probe e = sample_ydl (Inl (DownloadError e)) (Inr sample_info) {''downloads/abc.webm''}"

definition failing_fetch :: "string \<Rightarrow> extractor" where
  "failing_fetch e = sample_ydl (Inr sample_info) (Inl (DownloadError e)) {}"

definition fetching :: "info_dict \<Rightarrow> string set \<Rightarrow> extractor" where
  "fetching info written = sample_ydl (Inr info) (Inr info) written"

definition bare_info :: info_dict where
  "bare_info = Map.empty"

definition zero_info :: info_dict where
  "zero_info = [''duration'' \<mapsto> PInt 0, ''filesize'' \<mapsto> PInt 0]"

definition approx_info :: info_dict where
  "approx_info = [''filesize_approx'' \<mapsto> PInt 1572864]"

section \<open>What the extractor reports\<close>

text \<open>
  An entry of the info dictionary is unreported when its key is missing or stored with
  \<^verbatim>\<open>None\<close>; the numeric entries are meant to hold integers when reported.
\<close>

fun unreported :: "pyval option \<Rightarrow> bool" where
  "unreported None = True"
| "unreported (Some PNone) = True"
| "unreported (Some (PInt n)) = False"
| "unreported (Some (PStr s)) = False"

fun unreported_or_zero :: "pyval option \<Rightarrow> bool" where
  "unreported_or_zero None = True"
| "unreported_or_zero (Some PNone) = True"
| "unreported_or_zero (Some (PInt n)) = (n = 0)"
| "unreported_or_zero (Some (PStr s)) = False"

fun integer_if_reported :: "pyval option \<Rightarrow> bool" where
  "integer_if_reported None = True"
| "integer_if_reported (Some PNone) = True"
| "integer_if_reported (Some (PInt n)) = True"
| "integer_if_reported (Some (PStr s)) = False"

section \<open>Facts about the handler\<close>

lemma download_probe_raised:
  assumes "ydl (ydl_opts video_id) url False (files w) = (Inl (DownloadError e), fs)"
  shows "download BASE_URL ydl video_id url w =
           (probe_failed e, \<lparr>files = fs, calls = calls w @ [(url, False)]\<rparr>)"
  using assms by (simp add: download_def extract_info_def)

lemma download_fetch_raised:
  assumes "ydl (ydl_opts video_id) url False (files w) = (Inr probed, fs1)"
      and "ydl (ydl_opts video_id) url True fs1 = (Inl (DownloadError e), fs2)"
  shows "download BASE_URL ydl video_id url w =
           (error_response (''Download failed: '' @ e) 500,
            \<lparr>files = fs2, calls = calls w @ [(url, False), (url, True)]\<rparr>)"
  using assms by (simp add: download_def extract_info_def)

lemma download_fetched:
  assumes "ydl (ydl_opts video_id) url False (files w) = (Inr probed, fs1)"
      and "ydl (ydl_opts video_id) url True fs1 = (Inr info, fs2)"
  shows "download BASE_URL ydl video_id url w =
           (respond BASE_URL video_id url info fs2,
            \<lparr>files = fs2, calls = calls w @ [(url, False), (url, True)]\<rparr>)"
  using assms by (simp add: download_def extract_info_def)

lemma py_in_lower:
  assumes "sublist p s"
  shows "py_in (lower p) (lower s)"
  using assms unfolding py_in_def lower_def by (rule map_mono_sublist)

lemma probe_failed_classified: "probe_failed e = error_response (classified e) 400"
  by (simp add: probe_failed_def classified_def classification_table_def Let_def)

lemma status_probe_failed: "status_code (probe_failed e) = 400"
  by (simp add: probe_failed_classified error_response_def)

lemma status_unexpected: "status_code (unexpected e) = 500"
  by (simp add: unexpected_def error_response_def)

lemma join_DOWNLOAD_DIR:
  "os_path_join DOWNLOAD_DIR b = (if prefix ''/'' b then b else ''downloads/'' @ b)"
  by (simp add: os_path_join_def DOWNLOAD_DIR_def suffix_to_prefix)

lemma respond_missing:
  assumes "final_file video_id info \<notin> fs"
  shows "respond BASE_URL video_id url info fs =
           error_response ''Download completed but file not found. Please try again.'' 500"
  using assms by (simp add: respond_def)

lemma respond_ok:
  assumes "status_code (respond BASE_URL video_id url info fs) = 200"
  shows "final_file video_id info \<in> fs
    \<and> (\<exists>duration_str fileSize_str.
          duration_text (get info ''duration'' PNone) = Inr duration_str
        \<and> fileSize_text (py_or (get info ''filesize'' PNone) (get info ''filesize_approx'' PNone))
            = Inr fileSize_str
        \<and> respond BASE_URL video_id url info fs =
            JSONResponse
              [(''id'', PStr video_id),
               (''title'', get info ''title'' (PStr ''Unknown title'')),
               (''thumbnail'', get info ''thumbnail'' PNone),
               (''url'', PStr url),
               (''platform'', get info ''extractor'' (PStr ''Unknown'')),
               (''quality'', get info ''format_note'' (PStr ''best available'')),
               (''format'', ext_of info),
               (''duration'', PStr duration_str),
               (''fileSize'', PStr fileSize_str),
               (''downloadUrl'',
                  PStr (BASE_URL @ ''/file/'' @ video_id @ ''.'' @ py_str (ext_of info)))]
              200)"
  using assms
  by (auto simp add: respond_def error_response_def status_unexpected Let_def
           split: if_splits sum.splits)

lemma download_ok:
  assumes "status_code (fst (download BASE_URL ydl video_id url w)) = 200"
  shows "\<exists>probed fs1 info fs2.
           ydl (ydl_opts video_id) url False (files w) = (Inr probed, fs1)
         \<and> ydl (ydl_opts video_id) url True fs1 = (Inr info, fs2)
         \<and> fst (download BASE_URL ydl video_id url w) = respond BASE_URL video_id url info fs2"
  using assms
  by (auto simp add: download_def extract_info_def status_probe_failed status_unexpected
        error_response_def split: prod.splits sum.splits exc.splits)

lemmas run_handler =
  download_def extract_info_def respond_def final_file_def ext_of_def get_def py_or_def
  duration_text_def fileSize_text_def error_response_def unexpected_def join_DOWNLOAD_DIR
  Let_def

lemmas run_numbers =
  str_round_mb_def str_hundredths_def mb_hundredths_def round_half_even_def str_int_def
  str_nat.simps digit_char_def format_02d_def

lemmas run_info =
  sample_info_def bare_info_def zero_info_def approx_info_def

lemmas run_sample =
  sample_ydl_def failing_probe_def failing_fetch_def fetching_def w0_def

lemmas run_strings =
  lower_def lower_char_def py_in_def sublist_code(3)

lemma respond_fields:
  assumes "status_code (respond BASE_URL video_id url info fs) = 200"
  shows "field (respond BASE_URL video_id url info fs) ''id'' = Some (PStr video_id)"
    and "field (respond BASE_URL video_id url info fs) ''format'' = Some (ext_of info)"
    and "field (respond BASE_URL video_id url info fs) ''downloadUrl'' =
           Some (PStr (BASE_URL @ ''/file/'' @ video_id @ ''.'' @ py_str (ext_of info)))"
    and "duration_text (get info ''duration'' PNone) = Inr duration_str \<Longrightarrow>
         field (respond BASE_URL video_id url info fs) ''duration'' = Some (PStr duration_str)"
    and "fileSize_text (py_or (get info ''filesize'' PNone) (get info ''filesize_approx'' PNone)) =
           Inr fileSize_str \<Longrightarrow>
         field (respond BASE_URL video_id url info fs) ''fileSize'' = Some (PStr fileSize_str)"
  using respond_ok [OF assms] by auto

lemma fetched_response:
  assumes "ydl (ydl_opts video_id) url False (files w) = (Inr probed, fs1)"
      and "ydl (ydl_opts video_id) url True fs1 = (Inr info, fs2)"
  shows "fst (download BASE_URL ydl video_id url w) = respond BASE_URL video_id url info fs2"
  by (simp add: download_fetched [where ydl = ydl, OF assms])

lemma format_02d_two_digits:
  assumes "0 \<le> r" and "r < 100"
  shows "format_02d r = [digit_char (nat (r div 10)), digit_char (nat (r mod 10))]"
proof (cases "r < 10")
  case True
  with assms have "str_nat (nat r) = [digit_char (nat r)]"
    by (simp add: str_nat.simps [of "nat r"])
  moreover have "digit_char 0 = CHR ''0''" by (simp add: digit_char_def)
  ultimately show ?thesis using True assms
    by (simp add: format_02d_def str_int_def)
next
  case False
  with assms have big: "\<not> nat r < 10" and small: "nat r div 10 < 10" by linarith+
  have q: "nat r div 10 = nat (r div 10)" and m: "nat r mod 10 = nat (r mod 10)"
    using assms by (simp_all add: nat_div_distrib nat_mod_distrib)
  have "str_nat (nat r) = str_nat (nat r div 10) @ [digit_char (nat r mod 10)]"
    using big by (simp add: str_nat.simps [of "nat r"])
  also have "str_nat (nat r div 10) = [digit_char (nat r div 10)]"
    using small by (simp add: str_nat.simps [of "nat r div 10"])
  finally have "str_nat (nat r) = [digit_char (nat (r div 10)), digit_char (nat (r mod 10))]"
    by (simp add: q m)
  with False assms show ?thesis
    by (simp add: format_02d_def str_int_def)
qed

lemma duration_text_int:
  "d \<noteq> 0 \<Longrightarrow> duration_text (PInt d) =
     Inr (str_int (d div 60) @ '':'' @
          [digit_char (nat (d mod 60 div 10)), digit_char (nat (d mod 60 mod 10))])"
  by (simp add: duration_text_def format_02d_two_digits)

lemma round_half_even_close:
  assumes "0 < q"
  shows "2 * \<bar>round_half_even p q * q - p\<bar> \<le> q"
proof -
  define k r where "k = p div q" and "r = p mod q"
  have p: "p = k * q + r" by (simp add: k_def r_def)
  have r: "0 \<le> r" "r < q" using assms by (simp_all add: r_def)
  have up: "(k + 1) * q - p = q - r" by (simp add: p algebra_simps)
  have down: "k * q - p = - r" by (simp add: p)
  show ?thesis
    unfolding round_half_even_def Let_def k_def [symmetric] r_def [symmetric]
    using r by (simp add: up down)
qed

lemma mb_hundredths_close:
  "2 * \<bar>mb_hundredths n * (1024 * 1024) - \<bar>n\<bar> * 100\<bar> \<le> 1024 * 1024"
  unfolding mb_hundredths_def by (rule round_half_even_close) simp

lemma MB_not_Unknown: "s @ '' MB'' \<noteq> ''Unknown''"
proof
  assume "s @ '' MB'' = ''Unknown''"
  then have "last (s @ '' MB'') = last ''Unknown''" by simp
  then show False by simp
qed

lemma fileSize_text_int:
  "n \<noteq> 0 \<Longrightarrow> fileSize_text (PInt n) = Inr (str_round_mb n @ '' MB'')"
  by (simp add: fileSize_text_def)

lemma fileSize_text_falsy:
  "\<not> truthy v \<Longrightarrow> fileSize_text v = Inr ''Unknown''"
  by (simp add: fileSize_text_def)

lemma effective_size:
  assumes "integer_if_reported a" and "integer_if_reported b"
  shows "fileSize_text (py_or (case a of None \<Rightarrow> PNone | Some v \<Rightarrow> v)
                              (case b of None \<Rightarrow> PNone | Some v \<Rightarrow> v)) =
           (if unreported_or_zero a
            then (if unreported_or_zero b then Inr ''Unknown''
                  else Inr (str_round_mb (case b of Some (PInt n) \<Rightarrow> n | _ \<Rightarrow> 0) @ '' MB''))
            else Inr (str_round_mb (case a of Some (PInt n) \<Rightarrow> n | _ \<Rightarrow> 0) @ '' MB''))"
  using assms
  by (cases a rule: integer_if_reported.cases; cases b rule: integer_if_reported.cases)
     (simp_all add: py_or_def fileSize_text_def)

lemma str_round_mb_samples:
  "str_round_mb 1572864 = ''1.5''"
  "str_round_mb 1048576 = ''1.0''"
  "str_round_mb 131072 = ''0.12''"
  "str_round_mb 393216 = ''0.38''"
  "str_round_mb 123456789 = ''117.74''"
  "str_round_mb 5242 = ''0.0''"
  by (simp_all add: run_numbers)

lemma zero_run:
  "fst (download ''http://h'' (fetching zero_info {''downloads/abc.mp4''}) ''abc'' ''u'' w0) =
     JSONResponse
       [(''id'', PStr ''abc''),
        (''title'', PStr ''Unknown title''),
        (''thumbnail'', PNone),
        (''url'', PStr ''u''),
        (''platform'', PStr ''Unknown''),
        (''quality'', PStr ''best available''),
        (''format'', PStr ''mp4''),
        (''duration'', PStr ''Unknown''),
        (''fileSize'', PStr ''Unknown''),
        (''downloadUrl'', PStr ''http://h/file/abc.mp4'')]
       200"
  by (simp add: run_handler run_sample run_info)

lemma fetching_probe:
  "fetching info written (ydl_opts ''abc'') ''u'' False (files w0) = (Inr info, {})"
  by (simp add: run_sample)

lemma fetching_fetch:
  "fetching info written (ydl_opts ''abc'') ''u'' True {} = (Inr info, written)"
  by (simp add: run_sample)

lemma fetching_status:
  "status_code
     (fst (download ''http://h'' (fetching sample_info {''downloads/abc.webm''}) ''abc'' ''u'' w0)) = 200"
  "status_code
     (fst (download ''http://h'' (fetching bare_info {''downloads/abc.mp4''}) ''abc'' ''u'' w0)) = 200"
  "status_code
     (fst (download ''http://h'' (fetching zero_info {''downloads/abc.mp4''}) ''abc'' ''u'' w0)) = 200"
  "status_code
     (fst (download ''http://h'' (fetching approx_info {''downloads/abc.mp4''}) ''abc'' ''u'' w0)) = 200"
  by (simp_all add: run_handler run_sample run_info)

section \<open>Probe-stage failures\<close>

text \<open>
  C1. When the probing call raises \<^verbatim>\<open>DownloadError\<close> and the message contains
  ``private video'' in any casing (some block \<open>p\<close> of the message lower-cases to that
  phrase), the handler answers with status 400 and the private-video message, and the
  only call it has added to the log is the probing one: the downloading call is not
  made.
\<close>

theorem probe_private_video_is_client_error:
  assumes "ydl (ydl_opts video_id) url False (files w) = (Inl (DownloadError e), fs)"
      and "sublist p e"
      and "lower p = ''private video''"
  shows "fst (download BASE_URL ydl video_id url w) =
           JSONResponse [(''error'', PStr ''This video is private or requires authentication.'')] 400
         \<and> calls (snd (download BASE_URL ydl video_id url w)) = calls w @ [(url, False)]"
proof -
  have "py_in ''private video'' (lower e)"
    using py_in_lower [OF assms(2)] assms(3) by simp
  then have "probe_failed e =
      error_response ''This video is private or requires authentication.'' 400"
    by (simp add: probe_failed_def)
  then show ?thesis
    by (simp add: download_probe_raised [where ydl = ydl, OF assms(1)] error_response_def)
qed

theorem probe_private_video_is_client_error_witness:
  "failing_probe ''ERROR: [youtube] abc: Private Video'' (ydl_opts ''abc'') ''u'' False (files w0) =
     (Inl (DownloadError ''ERROR: [youtube] abc: Private Video''), {})
   \<and> sublist ''Private Video'' ''ERROR: [youtube] abc: Private Video''
   \<and> lower ''Private Video'' = ''private video''
   \<and> fst (download ''http://h'' (failing_probe ''ERROR: [youtube] abc: Private Video'') ''abc'' ''u'' w0) =
       JSONResponse [(''error'', PStr ''This video is private or requires authentication.'')] 400
   \<and> calls (snd (download ''http://h'' (failing_probe ''ERROR: [youtube] abc: Private Video'') ''abc'' ''u'' w0)) =
       [(''u'', False)]"
proof -
  let ?e = "''ERROR: [youtube] abc: Private Video''"
  have a: "failing_probe ?e (ydl_opts ''abc'') ''u'' False (files w0) = (Inl (DownloadError ?e), {})"
    by (simp add: run_sample)
  have b: "sublist ''Private Video'' ?e"
    by (simp add: sublist_code(3))
  have c: "lower ''Private Video'' = ''private video''"
    by (simp add: lower_def lower_char_def)
  from probe_private_video_is_client_error
         [where ydl = "failing_probe ?e", OF a b c, of "''http://h''"] a b c
  show ?thesis by (simp add: w0_def)
qed

text \<open>
  C2. When the probing call raises \<^verbatim>\<open>DownloadError\<close>, the handler answers with the
  text that the ordered, first-match-wins table of the specification assigns to the
  lower-cased message (the generic text with the original message when no row matches),
  always with status 400.
\<close>

theorem probe_error_classification:
  assumes "ydl (ydl_opts video_id) url False (files w) = (Inl (DownloadError e), fs)"
  shows "fst (download BASE_URL ydl video_id url w) =
           JSONResponse [(''error'', PStr (classified e))] 400"
  by (simp add: download_probe_raised [where ydl = ydl, OF assms]
        probe_failed_classified error_response_def)

theorem probe_error_classification_witness:
  "fst (download ''http://h'' (failing_probe ''ERROR: Sign in to confirm. Video unavailable'') ''abc'' ''u'' w0) =
     JSONResponse [(''error'', PStr ''This video is private or requires authentication.'')] 400
   \<and> fst (download ''http://h'' (failing_probe ''ERROR: Video Unavailable, age-restricted'') ''abc'' ''u'' w0) =
     JSONResponse [(''error'', PStr ''This video is unavailable or has been removed.'')] 400
   \<and> fst (download ''http://h'' (failing_probe ''ERROR: This live stream is not available'') ''abc'' ''u'' w0) =
     JSONResponse [(''error'', PStr ''Live streams cannot be downloaded while they are ongoing.'')] 400
   \<and> fst (download ''http://h'' (failing_probe ''ERROR: This video is Age-Restricted'') ''abc'' ''u'' w0) =
     JSONResponse [(''error'', PStr ''This video is age-restricted and cannot be downloaded.'')] 400
   \<and> fst (download ''http://h'' (failing_probe ''ERROR: live stream ended'') ''abc'' ''u'' w0) =
     JSONResponse [(''error'', PStr ''Cannot access this video: ERROR: live stream ended'')] 400"
proof -
  have raised: "failing_probe e (ydl_opts ''abc'') ''u'' False (files w0) = (Inl (DownloadError e), {})"
    for e by (simp add: run_sample)
  have classify: "fst (download ''http://h'' (failing_probe e) ''abc'' ''u'' w0) =
      JSONResponse [(''error'', PStr (classified e))] 400" for e
    by (rule probe_error_classification [where ydl = "failing_probe e", OF raised])
  have "classified ''ERROR: Sign in to confirm. Video unavailable'' =
      ''This video is private or requires authentication.''"
    by (simp add: classified_def classification_table_def run_strings)
  moreover have "classified ''ERROR: Video Unavailable, age-restricted'' =
      ''This video is unavailable or has been removed.''"
    by (simp add: classified_def classification_table_def run_strings)
  moreover have "classified ''ERROR: This live stream is not available'' =
      ''Live streams cannot be downloaded while they are ongoing.''"
    by (simp add: classified_def classification_table_def run_strings)
  moreover have "classified ''ERROR: This video is Age-Restricted'' =
      ''This video is age-restricted and cannot be downloaded.''"
    by (simp add: classified_def classification_table_def run_strings)
  moreover have "classified ''ERROR: live stream ended'' =
      ''Cannot access this video: ERROR: live stream ended''"
    by (simp add: classified_def classification_table_def run_strings)
  ultimately show ?thesis
    by (simp only: classify simp_thms)
qed

section \<open>Fetch-stage failures\<close>

text \<open>
  C3. When the probing call returns and the downloading call raises
  \<^verbatim>\<open>DownloadError\<close>, the handler answers with status 500 and the text
  ``Download failed: '' followed by the message. This is never a response of the
  probe-stage classification, whatever the message contains.
\<close>

theorem fetch_error_is_generic_server_error:
  assumes "ydl (ydl_opts video_id) url False (files w) = (Inr probed, fs1)"
      and "ydl (ydl_opts video_id) url True fs1 = (Inl (DownloadError e), fs2)"
  shows "fst (download BASE_URL ydl video_id url w) =
           JSONResponse [(''error'', PStr (''Download failed: '' @ e))] 500
         \<and> (\<forall>e'. fst (download BASE_URL ydl video_id url w) \<noteq> probe_failed e')"
proof -
  have r: "fst (download BASE_URL ydl video_id url w) =
      error_response (''Download failed: '' @ e) 500"
    by (simp add: download_fetch_raised [where ydl = ydl, OF assms])
  have "status_code (fst (download BASE_URL ydl video_id url w)) \<noteq> status_code (probe_failed e')"
    for e' by (simp add: r status_probe_failed error_response_def)
  then have "\<forall>e'. fst (download BASE_URL ydl video_id url w) \<noteq> probe_failed e'"
    by metis
  with r show ?thesis by (simp add: error_response_def)
qed

theorem fetch_error_is_generic_server_error_witness:
  "failing_fetch ''ERROR: Private video'' (ydl_opts ''abc'') ''u'' False (files w0) = (Inr sample_info, {})
   \<and> failing_fetch ''ERROR: Private video'' (ydl_opts ''abc'') ''u'' True {} =
       (Inl (DownloadError ''ERROR: Private video''), {})
   \<and> fst (download ''http://h'' (failing_fetch ''ERROR: Private video'') ''abc'' ''u'' w0) =
       JSONResponse [(''error'', PStr ''Download failed: ERROR: Private video'')] 500
   \<and> fst (download ''http://h'' (failing_fetch ''ERROR: Private video'') ''abc'' ''u'' w0) \<noteq>
       probe_failed ''ERROR: Private video''"
proof -
  let ?e = "''ERROR: Private video''"
  have a: "failing_fetch ?e (ydl_opts ''abc'') ''u'' False (files w0) = (Inr sample_info, {})"
    by (simp add: run_sample)
  have b: "failing_fetch ?e (ydl_opts ''abc'') ''u'' True {} = (Inl (DownloadError ?e), {})"
    by (simp add: run_sample)
  have r: "fst (download ''http://h'' (failing_fetch ?e) ''abc'' ''u'' w0) =
        JSONResponse [(''error'', PStr (''Download failed: '' @ ?e))] 500
      \<and> (\<forall>e'. fst (download ''http://h'' (failing_fetch ?e) ''abc'' ''u'' w0) \<noteq> probe_failed e')"
    by (rule fetch_error_is_generic_server_error [where ydl = "failing_fetch ?e", OF a b])
  then have "fst (download ''http://h'' (failing_fetch ?e) ''abc'' ''u'' w0) \<noteq> probe_failed ?e"
    by blast
  moreover have "fst (download ''http://h'' (failing_fetch ?e) ''abc'' ''u'' w0) =
      JSONResponse [(''error'', PStr ''Download failed: ERROR: Private video'')] 500"
    using r by simp
  ultimately show ?thesis using a b by blast
qed

section \<open>The file behind a result\<close>

text \<open>
  C4. If both extractor calls return but no file exists at
  \<^verbatim>\<open>{DOWNLOAD_DIR}/{video_id}.{ext}\<close>, the handler answers with status 500 and the
  text ``Download completed but file not found. Please try again.''. A response with
  status 200 is given only when both calls returned and that file exists. The extension
  in the path is the one stored under \<^verbatim>\<open>"ext"\<close>, and \<^verbatim>\<open>mp4\<close> when the key is
  missing.
\<close>

theorem result_only_with_existing_file:
  "(\<forall>probed fs1 info fs2.
       ydl (ydl_opts video_id) url False (files w) = (Inr probed, fs1)
     \<and> ydl (ydl_opts video_id) url True fs1 = (Inr info, fs2)
     \<and> final_file video_id info \<notin> fs2
     \<longrightarrow> fst (download BASE_URL ydl video_id url w) =
           JSONResponse
             [(''error'', PStr ''Download completed but file not found. Please try again.'')] 500)
   \<and> (status_code (fst (download BASE_URL ydl video_id url w)) = 200 \<longrightarrow>
       (\<exists>probed fs1 info fs2.
           ydl (ydl_opts video_id) url False (files w) = (Inr probed, fs1)
         \<and> ydl (ydl_opts video_id) url True fs1 = (Inr info, fs2)
         \<and> final_file video_id info \<in> fs2))
   \<and> (\<forall>info. final_file video_id info =
         os_path_join DOWNLOAD_DIR
           (video_id @ ''.'' @ (case info ''ext'' of None \<Rightarrow> ''mp4'' | Some e \<Rightarrow> py_str e)))"
proof (intro conjI allI impI)
  fix probed fs1 info fs2
  assume h: "ydl (ydl_opts video_id) url False (files w) = (Inr probed, fs1)
     \<and> ydl (ydl_opts video_id) url True fs1 = (Inr info, fs2)
     \<and> final_file video_id info \<notin> fs2"
  then have "download BASE_URL ydl video_id url w =
      (respond BASE_URL video_id url info fs2,
       \<lparr>files = fs2, calls = calls w @ [(url, False), (url, True)]\<rparr>)"
    using download_fetched [where ydl = ydl] by blast
  with h show "fst (download BASE_URL ydl video_id url w) =
      JSONResponse
        [(''error'', PStr ''Download completed but file not found. Please try again.'')] 500"
    by (simp add: respond_missing error_response_def)
next
  assume ok: "status_code (fst (download BASE_URL ydl video_id url w)) = 200"
  from download_ok [OF ok] obtain probed fs1 info fs2 where
    p: "ydl (ydl_opts video_id) url False (files w) = (Inr probed, fs1)"
    and f: "ydl (ydl_opts video_id) url True fs1 = (Inr info, fs2)"
    and r: "fst (download BASE_URL ydl video_id url w) = respond BASE_URL video_id url info fs2"
    by blast
  from ok r have "status_code (respond BASE_URL video_id url info fs2) = 200" by simp
  then have "final_file video_id info \<in> fs2" using respond_ok by blast
  with p f show "\<exists>probed fs1 info fs2.
           ydl (ydl_opts video_id) url False (files w) = (Inr probed, fs1)
         \<and> ydl (ydl_opts video_id) url True fs1 = (Inr info, fs2)
         \<and> final_file video_id info \<in> fs2" by blast
next
  fix info :: info_dict
  show "final_file video_id info =
         os_path_join DOWNLOAD_DIR
           (video_id @ ''.'' @ (case info ''ext'' of None \<Rightarrow> ''mp4'' | Some e \<Rightarrow> py_str e))"
    by (simp add: final_file_def ext_of_def get_def split: option.splits)
qed

theorem result_only_with_existing_file_witness:
  "fetching sample_info {} (ydl_opts ''abc'') ''u'' False (files w0) = (Inr sample_info, {})
   \<and> fetching sample_info {} (ydl_opts ''abc'') ''u'' True {} = (Inr sample_info, {})
   \<and> final_file ''abc'' sample_info = ''downloads/abc.webm''
   \<and> fst (download ''http://h'' (fetching sample_info {}) ''abc'' ''u'' w0) =
       JSONResponse
         [(''error'', PStr ''Download completed but file not found. Please try again.'')] 500
   \<and> status_code
       (fst (download ''http://h'' (fetching bare_info {''downloads/abc.mp4''}) ''abc'' ''u'' w0)) = 200
   \<and> (\<exists>probed fs1 info fs2.
         fetching bare_info {''downloads/abc.mp4''} (ydl_opts ''abc'') ''u'' False (files w0) =
           (Inr probed, fs1)
       \<and> fetching bare_info {''downloads/abc.mp4''} (ydl_opts ''abc'') ''u'' True fs1 =
           (Inr info, fs2)
       \<and> final_file ''abc'' info \<in> fs2)
   \<and> final_file ''abc'' bare_info = ''downloads/abc.mp4''"
proof -
  let ?lost = "fetching sample_info {}"
  let ?kept = "fetching bare_info {''downloads/abc.mp4''}"
  note lost = result_only_with_existing_file
    [of ?lost "''abc''" "''u''" w0 "''http://h''"]
  note kept = result_only_with_existing_file
    [of ?kept "''abc''" "''u''" w0 "''http://h''"]
  have a: "?lost (ydl_opts ''abc'') ''u'' False (files w0) = (Inr sample_info, {})"
    by (simp add: run_sample)
  have b: "?lost (ydl_opts ''abc'') ''u'' True {} = (Inr sample_info, {})"
    by (simp add: run_sample)
  have c: "final_file ''abc'' sample_info = ''downloads/abc.webm''"
    by (simp add: run_handler run_info)
  have d: "fst (download ''http://h'' ?lost ''abc'' ''u'' w0) =
      JSONResponse
        [(''error'', PStr ''Download completed but file not found. Please try again.'')] 500"
    using lost a b c by blast
  have e: "status_code (fst (download ''http://h'' ?kept ''abc'' ''u'' w0)) = 200"
    by (simp add: run_handler run_sample run_info)
  have f: "\<exists>probed fs1 info fs2.
         ?kept (ydl_opts ''abc'') ''u'' False (files w0) = (Inr probed, fs1)
       \<and> ?kept (ydl_opts ''abc'') ''u'' True fs1 = (Inr info, fs2)
       \<and> final_file ''abc'' info \<in> fs2"
    using kept e by blast
  have g: "final_file ''abc'' bare_info = ''downloads/abc.mp4''"
    by (simp add: run_handler run_info)
  from a b c d e f g show ?thesis by blast
qed

text \<open>
  C5. In a run that ends with status 200, the value under \<^verbatim>\<open>"downloadUrl"\<close> is
  \<^verbatim>\<open>{BASE_URL}/file/{video_id}.{ext}\<close> with the identifier of that run (also the
  value under \<^verbatim>\<open>"id"\<close>) and the extension of the path whose existence was tested
  (also the value under \<^verbatim>\<open>"format"\<close>); the file \<^verbatim>\<open>{video_id}.{ext}\<close> exists
  in the download directory, and \<^const>\<open>get_file\<close>, asked for that name, finds the
  path and builds the file response for it.
\<close>

theorem download_url_names_the_file:
  assumes "ydl (ydl_opts video_id) url False (files w) = (Inr probed, fs1)"
      and "ydl (ydl_opts video_id) url True fs1 = (Inr info, fs2)"
      and "status_code (fst (download BASE_URL ydl video_id url w)) = 200"
  shows "field (fst (download BASE_URL ydl video_id url w)) ''downloadUrl'' =
           Some (PStr (BASE_URL @ ''/file/'' @ video_id @ ''.'' @ py_str (ext_of info)))
       \<and> field (fst (download BASE_URL ydl video_id url w)) ''id'' = Some (PStr video_id)
       \<and> field (fst (download BASE_URL ydl video_id url w)) ''format'' = Some (ext_of info)
       \<and> os_path_join DOWNLOAD_DIR (video_id @ ''.'' @ py_str (ext_of info)) \<in> fs2
       \<and> get_file (video_id @ ''.'' @ py_str (ext_of info)) fs2 =
           file_response (os_path_join DOWNLOAD_DIR (video_id @ ''.'' @ py_str (ext_of info)))
             (video_id @ ''.'' @ py_str (ext_of info)) ''application/octet-stream''
             [(''Content-Disposition'',
               ''attachment; filename='' @ video_id @ ''.'' @ py_str (ext_of info))]"
proof -
  note r = fetched_response [where ydl = ydl, OF assms(1,2), of BASE_URL]
  from assms(3) have ok: "status_code (respond BASE_URL video_id url info fs2) = 200"
    by (simp add: r)
  have here: "os_path_join DOWNLOAD_DIR (video_id @ ''.'' @ py_str (ext_of info)) \<in> fs2"
    using respond_ok [OF ok] by (simp add: final_file_def)
  then have "get_file (video_id @ ''.'' @ py_str (ext_of info)) fs2 =
           file_response (os_path_join DOWNLOAD_DIR (video_id @ ''.'' @ py_str (ext_of info)))
             (video_id @ ''.'' @ py_str (ext_of info)) ''application/octet-stream''
             [(''Content-Disposition'',
               ''attachment; filename='' @ video_id @ ''.'' @ py_str (ext_of info))]"
    by (simp add: get_file_def)
  with here show ?thesis
    by (simp add: r respond_fields(1-3) [OF ok])
qed

theorem download_url_names_the_file_witness:
  "fetching sample_info {''downloads/abc.webm''} (ydl_opts ''abc'') ''u'' False (files w0) =
     (Inr sample_info, {})
   \<and> fetching sample_info {''downloads/abc.webm''} (ydl_opts ''abc'') ''u'' True {} =
     (Inr sample_info, {''downloads/abc.webm''})
   \<and> status_code
       (fst (download ''http://h'' (fetching sample_info {''downloads/abc.webm''}) ''abc'' ''u'' w0)) = 200
   \<and> field (fst (download ''http://h'' (fetching sample_info {''downloads/abc.webm''}) ''abc'' ''u'' w0))
       ''downloadUrl'' = Some (PStr ''http://h/file/abc.webm'')
   \<and> field (fst (download ''http://h'' (fetching sample_info {''downloads/abc.webm''}) ''abc'' ''u'' w0))
       ''id'' = Some (PStr ''abc'')
   \<and> get_file ''abc.webm'' {''downloads/abc.webm''} =
       Inr (FileResponse ''downloads/abc.webm'' ''abc.webm'' ''application/octet-stream''
         [(''Content-Disposition'', ''attachment; filename=abc.webm'')])"
proof -
  let ?ydl = "fetching sample_info {''downloads/abc.webm''}"
  note a = fetching_probe [of sample_info "{''downloads/abc.webm''}"]
  note b = fetching_fetch [of sample_info "{''downloads/abc.webm''}"]
  note c = fetching_status(1)
  have e: "py_str (ext_of sample_info) = ''webm''"
    by (simp add: ext_of_def get_def run_info)
  from download_url_names_the_file [where ydl = ?ydl, OF a b c]
  have "field (fst (download ''http://h'' ?ydl ''abc'' ''u'' w0)) ''downloadUrl'' =
          Some (PStr ''http://h/file/abc.webm'')
      \<and> field (fst (download ''http://h'' ?ydl ''abc'' ''u'' w0)) ''id'' = Some (PStr ''abc'')
      \<and> get_file ''abc.webm'' {''downloads/abc.webm''} =
          Inr (FileResponse ''downloads/abc.webm'' ''abc.webm'' ''application/octet-stream''
            [(''Content-Disposition'', ''attachment; filename=abc.webm'')])"
    by (simp add: e join_DOWNLOAD_DIR file_response_def latin_1_def)
  with a b c show ?thesis by blast
qed

section \<open>The formatted fields\<close>

text \<open>
  C6, as the code has it. In a run that ends with status 200, a reported duration of
  \<open>d\<close> seconds, \<open>d\<close> a non-zero integer, is rendered as the decimal of \<open>d div 60\<close>, a
  colon, and the two decimal digits of \<open>d mod 60\<close>; an unreported duration (key missing
  or \<^verbatim>\<open>None\<close>) is rendered as ``Unknown''.
\<close>

theorem duration_minutes_seconds:
  assumes "ydl (ydl_opts video_id) url False (files w) = (Inr probed, fs1)"
      and "ydl (ydl_opts video_id) url True fs1 = (Inr info, fs2)"
      and "status_code (fst (download BASE_URL ydl video_id url w)) = 200"
  shows "(\<forall>d. info ''duration'' = Some (PInt d) \<and> d \<noteq> 0 \<longrightarrow>
            field (fst (download BASE_URL ydl video_id url w)) ''duration'' =
              Some (PStr (str_int (d div 60) @ '':'' @
                [digit_char (nat (d mod 60 div 10)), digit_char (nat (d mod 60 mod 10))])))
       \<and> (unreported (info ''duration'') \<longrightarrow>
            field (fst (download BASE_URL ydl video_id url w)) ''duration'' =
              Some (PStr ''Unknown''))"
proof -
  note r = fetched_response [where ydl = ydl, OF assms(1,2), of BASE_URL]
  from assms(3) have ok: "status_code (respond BASE_URL video_id url info fs2) = 200"
    by (simp add: r)
  show ?thesis
  proof (intro conjI allI impI)
    fix d assume "info ''duration'' = Some (PInt d) \<and> d \<noteq> 0"
    then have "duration_text (get info ''duration'' PNone) =
        Inr (str_int (d div 60) @ '':'' @
          [digit_char (nat (d mod 60 div 10)), digit_char (nat (d mod 60 mod 10))])"
      by (simp add: get_def duration_text_int)
    then show "field (fst (download BASE_URL ydl video_id url w)) ''duration'' =
              Some (PStr (str_int (d div 60) @ '':'' @
                [digit_char (nat (d mod 60 div 10)), digit_char (nat (d mod 60 mod 10))]))"
      by (simp only: r respond_fields(4) [OF ok])
  next
    assume "unreported (info ''duration'')"
    then have "get info ''duration'' PNone = PNone"
      by (cases "info ''duration''" rule: unreported.cases) (simp_all add: get_def)
    then have "duration_text (get info ''duration'' PNone) = Inr ''Unknown''"
      by (simp add: duration_text_def)
    then show "field (fst (download BASE_URL ydl video_id url w)) ''duration'' =
              Some (PStr ''Unknown'')"
      by (simp only: r respond_fields(4) [OF ok])
  qed
qed

theorem duration_minutes_seconds_witness:
  "fetching sample_info {''downloads/abc.webm''} (ydl_opts ''abc'') ''u'' False (files w0) =
     (Inr sample_info, {})
   \<and> fetching sample_info {''downloads/abc.webm''} (ydl_opts ''abc'') ''u'' True {} =
     (Inr sample_info, {''downloads/abc.webm''})
   \<and> status_code
       (fst (download ''http://h'' (fetching sample_info {''downloads/abc.webm''}) ''abc'' ''u'' w0)) = 200
   \<and> sample_info ''duration'' = Some (PInt 125)
   \<and> field (fst (download ''http://h'' (fetching sample_info {''downloads/abc.webm''}) ''abc'' ''u'' w0))
       ''duration'' = Some (PStr ''2:05'')
   \<and> status_code
       (fst (download ''http://h'' (fetching bare_info {''downloads/abc.mp4''}) ''abc'' ''u'' w0)) = 200
   \<and> unreported (bare_info ''duration'')
   \<and> field (fst (download ''http://h'' (fetching bare_info {''downloads/abc.mp4''}) ''abc'' ''u'' w0))
       ''duration'' = Some (PStr ''Unknown'')"
proof -
  let ?timed = "fetching sample_info {''downloads/abc.webm''}"
  let ?bare = "fetching bare_info {''downloads/abc.mp4''}"
  note a = fetching_probe [of sample_info "{''downloads/abc.webm''}"]
  note b = fetching_fetch [of sample_info "{''downloads/abc.webm''}"]
  note c = fetching_status(1)
  note timed = duration_minutes_seconds [where ydl = ?timed, OF a b c]
  note bare = duration_minutes_seconds [where ydl = ?bare,
    OF fetching_probe fetching_fetch fetching_status(2)]
  have d: "sample_info ''duration'' = Some (PInt 125)"
    by (simp add: run_info)
  from timed have "sample_info ''duration'' = Some (PInt 125) \<and> (125::int) \<noteq> 0 \<longrightarrow>
      field (fst (download ''http://h'' ?timed ''abc'' ''u'' w0)) ''duration'' =
        Some (PStr (str_int (125 div 60) @ '':'' @
          [digit_char (nat (125 mod 60 div 10)), digit_char (nat (125 mod 60 mod 10))]))"
    by blast
  with d have e: "field (fst (download ''http://h'' ?timed ''abc'' ''u'' w0)) ''duration'' =
      Some (PStr ''2:05'')"
    by (simp add: run_numbers)
  have f: "unreported (bare_info ''duration'')"
    by (simp add: run_info)
  with bare have g: "field (fst (download ''http://h'' ?bare ''abc'' ''u'' w0)) ''duration'' =
      Some (PStr ''Unknown'')"
    by blast
  from a b c d e fetching_status(2) f g show ?thesis by blast
qed

text \<open>
  C6 as it is stated fails on a reported duration of zero seconds: the run ends with
  status 200 and the field is ``Unknown'', not the minutes and seconds of zero.
\<close>

theorem zero_duration_not_minutes_seconds:
  "zero_info ''duration'' = Some (PInt 0)
   \<and> status_code
       (fst (download ''http://h'' (fetching zero_info {''downloads/abc.mp4''}) ''abc'' ''u'' w0)) = 200
   \<and> str_int (0 div 60) @ '':'' @ format_02d (0 mod 60) = ''0:00''
   \<and> field (fst (download ''http://h'' (fetching zero_info {''downloads/abc.mp4''}) ''abc'' ''u'' w0))
       ''duration'' = Some (PStr ''Unknown'')
   \<and> field (fst (download ''http://h'' (fetching zero_info {''downloads/abc.mp4''}) ''abc'' ''u'' w0))
       ''duration'' \<noteq> Some (PStr (str_int (0 div 60) @ '':'' @ format_02d (0 mod 60)))"
proof -
  have "zero_info ''duration'' = Some (PInt 0)"
    by (simp add: run_info)
  moreover have "str_int (0 div 60) @ '':'' @ format_02d (0 mod 60) = ''0:00''"
    by (simp add: run_numbers)
  ultimately show ?thesis
    by (simp add: zero_run)
qed

text \<open>
  C9. In a run that ends with status 200, a reported duration of exactly zero seconds
  is rendered as ``Unknown'', not as ``0:00''.
\<close>

theorem zero_duration_is_unknown:
  assumes "ydl (ydl_opts video_id) url False (files w) = (Inr probed, fs1)"
      and "ydl (ydl_opts video_id) url True fs1 = (Inr info, fs2)"
      and "status_code (fst (download BASE_URL ydl video_id url w)) = 200"
      and "info ''duration'' = Some (PInt 0)"
  shows "field (fst (download BASE_URL ydl video_id url w)) ''duration'' = Some (PStr ''Unknown'')
       \<and> field (fst (download BASE_URL ydl video_id url w)) ''duration'' \<noteq> Some (PStr ''0:00'')"
proof -
  note r = fetched_response [where ydl = ydl, OF assms(1,2), of BASE_URL]
  from assms(3) have ok: "status_code (respond BASE_URL video_id url info fs2) = 200"
    by (simp add: r)
  have "duration_text (get info ''duration'' PNone) = Inr ''Unknown''"
    using assms(4) by (simp add: get_def duration_text_def)
  then have "field (fst (download BASE_URL ydl video_id url w)) ''duration'' = Some (PStr ''Unknown'')"
    by (simp only: r respond_fields(4) [OF ok])
  then show ?thesis by simp
qed

theorem zero_duration_is_unknown_witness:
  "fetching zero_info {''downloads/abc.mp4''} (ydl_opts ''abc'') ''u'' False (files w0) =
     (Inr zero_info, {})
   \<and> fetching zero_info {''downloads/abc.mp4''} (ydl_opts ''abc'') ''u'' True {} =
     (Inr zero_info, {''downloads/abc.mp4''})
   \<and> status_code
       (fst (download ''http://h'' (fetching zero_info {''downloads/abc.mp4''}) ''abc'' ''u'' w0)) = 200
   \<and> zero_info ''duration'' = Some (PInt 0)
   \<and> field (fst (download ''http://h'' (fetching zero_info {''downloads/abc.mp4''}) ''abc'' ''u'' w0))
       ''duration'' = Some (PStr ''Unknown'')"
proof -
  let ?ydl = "fetching zero_info {''downloads/abc.mp4''}"
  note a = fetching_probe [of zero_info "{''downloads/abc.mp4''}"]
  note b = fetching_fetch [of zero_info "{''downloads/abc.mp4''}"]
  note c = fetching_status(3)
  have d: "zero_info ''duration'' = Some (PInt 0)"
    by (simp add: run_info)
  from zero_duration_is_unknown [where ydl = ?ydl, OF a b c d] a b c d
  show ?thesis by blast
qed

text \<open>
  C7, as the code has it. In a run that ends with status 200, a reported exact size of
  \<open>n\<close> bytes, \<open>0 < n < 2^53\<close>, is rendered as a number of hundredths of a megabyte
  followed by `` MB'': the number of hundredths is within one half of \<open>100 n / 1024^2\<close>,
  and it is printed as its integer part, a point and one or two decimals. When neither
  the exact nor the approximate size is reported the field is ``Unknown''.
\<close>

theorem file_size_megabytes:
  assumes "ydl (ydl_opts video_id) url False (files w) = (Inr probed, fs1)"
      and "ydl (ydl_opts video_id) url True fs1 = (Inr info, fs2)"
      and "status_code (fst (download BASE_URL ydl video_id url w)) = 200"
  shows "(\<forall>n. info ''filesize'' = Some (PInt n) \<and> 0 < n \<and> n < 2 ^ 53 \<longrightarrow>
            field (fst (download BASE_URL ydl video_id url w)) ''fileSize'' =
              Some (PStr (str_hundredths (mb_hundredths n) @ '' MB''))
          \<and> 2 * \<bar>mb_hundredths n * (1024 * 1024) - n * 100\<bar> \<le> 1024 * 1024)
       \<and> (unreported (info ''filesize'') \<and> unreported (info ''filesize_approx'') \<longrightarrow>
            field (fst (download BASE_URL ydl video_id url w)) ''fileSize'' =
              Some (PStr ''Unknown''))"
proof -
  note r = fetched_response [where ydl = ydl, OF assms(1,2), of BASE_URL]
  from assms(3) have ok: "status_code (respond BASE_URL video_id url info fs2) = 200"
    by (simp add: r)
  show ?thesis
  proof (intro conjI allI impI)
    fix n assume h: "info ''filesize'' = Some (PInt n) \<and> 0 < n \<and> n < 2 ^ 53"
    then have "fileSize_text (py_or (get info ''filesize'' PNone) (get info ''filesize_approx'' PNone)) =
        Inr (str_hundredths (mb_hundredths n) @ '' MB'')"
      by (simp add: get_def py_or_def fileSize_text_int str_round_mb_def)
    then show "field (fst (download BASE_URL ydl video_id url w)) ''fileSize'' =
              Some (PStr (str_hundredths (mb_hundredths n) @ '' MB''))"
      by (simp only: r respond_fields(5) [OF ok])
    from h mb_hundredths_close [of n]
    show "2 * \<bar>mb_hundredths n * (1024 * 1024) - n * 100\<bar> \<le> 1024 * 1024"
      by simp
  next
    assume h: "unreported (info ''filesize'') \<and> unreported (info ''filesize_approx'')"
    have "get info k PNone = PNone" if "unreported (info k)" for k
      using that by (cases "info k" rule: unreported.cases) (simp_all add: get_def)
    with h have "py_or (get info ''filesize'' PNone) (get info ''filesize_approx'' PNone) = PNone"
      by (simp add: py_or_def)
    then have "fileSize_text (py_or (get info ''filesize'' PNone) (get info ''filesize_approx'' PNone)) =
        Inr ''Unknown''"
      by (simp add: fileSize_text_falsy)
    then show "field (fst (download BASE_URL ydl video_id url w)) ''fileSize'' =
              Some (PStr ''Unknown'')"
      by (simp only: r respond_fields(5) [OF ok])
  qed
qed

theorem file_size_megabytes_witness:
  "fetching sample_info {''downloads/abc.webm''} (ydl_opts ''abc'') ''u'' False (files w0) =
     (Inr sample_info, {})
   \<and> fetching sample_info {''downloads/abc.webm''} (ydl_opts ''abc'') ''u'' True {} =
     (Inr sample_info, {''downloads/abc.webm''})
   \<and> status_code
       (fst (download ''http://h'' (fetching sample_info {''downloads/abc.webm''}) ''abc'' ''u'' w0)) = 200
   \<and> sample_info ''filesize'' = Some (PInt 1572864)
   \<and> (0::int) < 1572864 \<and> (1572864::int) < 2 ^ 53
   \<and> field (fst (download ''http://h'' (fetching sample_info {''downloads/abc.webm''}) ''abc'' ''u'' w0))
       ''fileSize'' = Some (PStr ''1.5 MB'')
   \<and> status_code
       (fst (download ''http://h'' (fetching bare_info {''downloads/abc.mp4''}) ''abc'' ''u'' w0)) = 200
   \<and> unreported (bare_info ''filesize'') \<and> unreported (bare_info ''filesize_approx'')
   \<and> field (fst (download ''http://h'' (fetching bare_info {''downloads/abc.mp4''}) ''abc'' ''u'' w0))
       ''fileSize'' = Some (PStr ''Unknown'')"
proof -
  let ?sized = "fetching sample_info {''downloads/abc.webm''}"
  let ?bare = "fetching bare_info {''downloads/abc.mp4''}"
  note a = fetching_probe [of sample_info "{''downloads/abc.webm''}"]
  note b = fetching_fetch [of sample_info "{''downloads/abc.webm''}"]
  note c = fetching_status(1)
  note sized = file_size_megabytes [where ydl = ?sized, OF a b c]
  note bare = file_size_megabytes [where ydl = ?bare,
    OF fetching_probe fetching_fetch fetching_status(2)]
  have d: "sample_info ''filesize'' = Some (PInt 1572864)"
    by (simp add: run_info)
  have e: "(0::int) < 1572864 \<and> (1572864::int) < 2 ^ 53"
    by simp
  from sized have "sample_info ''filesize'' = Some (PInt 1572864)
        \<and> (0::int) < 1572864 \<and> (1572864::int) < 2 ^ 53 \<longrightarrow>
      field (fst (download ''http://h'' ?sized ''abc'' ''u'' w0)) ''fileSize'' =
        Some (PStr (str_hundredths (mb_hundredths 1572864) @ '' MB''))"
    by blast
  with d e have "field (fst (download ''http://h'' ?sized ''abc'' ''u'' w0)) ''fileSize'' =
      Some (PStr (str_hundredths (mb_hundredths 1572864) @ '' MB''))"
    by blast
  moreover have "str_hundredths (mb_hundredths 1572864) = ''1.5''"
    by (simp add: run_numbers)
  ultimately have f: "field (fst (download ''http://h'' ?sized ''abc'' ''u'' w0)) ''fileSize'' =
      Some (PStr ''1.5 MB'')"
    by simp
  have g: "unreported (bare_info ''filesize'') \<and> unreported (bare_info ''filesize_approx'')"
    by (simp add: run_info)
  with bare have h: "field (fst (download ''http://h'' ?bare ''abc'' ''u'' w0)) ''fileSize'' =
      Some (PStr ''Unknown'')"
    by blast
  from a b c d e f fetching_status(2) g h show ?thesis by blast
qed

text \<open>
  C7 as it is stated fails on a reported size of zero bytes with no approximate size:
  the run ends with status 200 and the field is ``Unknown'', not ``0.0 MB''.
\<close>

theorem zero_size_not_megabytes:
  "zero_info ''filesize'' = Some (PInt 0)
   \<and> zero_info ''filesize_approx'' = None
   \<and> status_code
       (fst (download ''http://h'' (fetching zero_info {''downloads/abc.mp4''}) ''abc'' ''u'' w0)) = 200
   \<and> str_round_mb 0 @ '' MB'' = ''0.0 MB''
   \<and> field (fst (download ''http://h'' (fetching zero_info {''downloads/abc.mp4''}) ''abc'' ''u'' w0))
       ''fileSize'' = Some (PStr ''Unknown'')
   \<and> field (fst (download ''http://h'' (fetching zero_info {''downloads/abc.mp4''}) ''abc'' ''u'' w0))
       ''fileSize'' \<noteq> Some (PStr (str_round_mb 0 @ '' MB''))"
proof -
  have "zero_info ''filesize'' = Some (PInt 0)" and "zero_info ''filesize_approx'' = None"
    by (simp_all add: run_info)
  moreover have "str_round_mb 0 @ '' MB'' = ''0.0 MB''"
    by (simp add: run_numbers)
  ultimately show ?thesis
    by (simp add: zero_run)
qed

text \<open>
  C10. In a run that ends with status 200, with the two size entries integers when
  reported: if the exact size is unreported or zero and the approximate size is \<open>n\<close>
  bytes, \<open>0 < n < 2^53\<close>, the size field is the megabyte rendering of \<open>n\<close>; and the
  field is ``Unknown'' exactly when both sizes are unreported or zero.
\<close>

theorem approximate_size_is_used:
  assumes "ydl (ydl_opts video_id) url False (files w) = (Inr probed, fs1)"
      and "ydl (ydl_opts video_id) url True fs1 = (Inr info, fs2)"
      and "status_code (fst (download BASE_URL ydl video_id url w)) = 200"
      and "integer_if_reported (info ''filesize'')"
      and "integer_if_reported (info ''filesize_approx'')"
  shows "(\<forall>n. unreported_or_zero (info ''filesize'')
              \<and> info ''filesize_approx'' = Some (PInt n) \<and> 0 < n \<and> n < 2 ^ 53 \<longrightarrow>
            field (fst (download BASE_URL ydl video_id url w)) ''fileSize'' =
              Some (PStr (str_round_mb n @ '' MB'')))
       \<and> (field (fst (download BASE_URL ydl video_id url w)) ''fileSize'' = Some (PStr ''Unknown'')
            \<longleftrightarrow> unreported_or_zero (info ''filesize'')
               \<and> unreported_or_zero (info ''filesize_approx''))"
proof -
  note r = fetched_response [where ydl = ydl, OF assms(1,2), of BASE_URL]
  from assms(3) have ok: "status_code (respond BASE_URL video_id url info fs2) = 200"
    by (simp add: r)
  let ?size = "fileSize_text (py_or (get info ''filesize'' PNone) (get info ''filesize_approx'' PNone))"
  note size = effective_size [OF assms(4,5), folded get_def]
  obtain t where t: "?size = Inr t"
    using respond_ok [OF ok] by blast
  have fld: "field (fst (download BASE_URL ydl video_id url w)) ''fileSize'' = Some (PStr t)"
    by (simp only: r respond_fields(5) [OF ok t])
  show ?thesis
  proof (intro conjI allI impI)
    fix n assume h: "unreported_or_zero (info ''filesize'')
              \<and> info ''filesize_approx'' = Some (PInt n) \<and> 0 < n \<and> n < 2 ^ 53"
    with t size have "t = str_round_mb n @ '' MB''" by simp
    with fld show "field (fst (download BASE_URL ydl video_id url w)) ''fileSize'' =
              Some (PStr (str_round_mb n @ '' MB''))" by simp
  next
    show "field (fst (download BASE_URL ydl video_id url w)) ''fileSize'' = Some (PStr ''Unknown'')
            \<longleftrightarrow> unreported_or_zero (info ''filesize'')
               \<and> unreported_or_zero (info ''filesize_approx'')"
      using t size by (auto simp add: fld MB_not_Unknown split: if_splits)
  qed
qed

theorem approximate_size_is_used_witness:
  "fetching approx_info {''downloads/abc.mp4''} (ydl_opts ''abc'') ''u'' False (files w0) =
     (Inr approx_info, {})
   \<and> fetching approx_info {''downloads/abc.mp4''} (ydl_opts ''abc'') ''u'' True {} =
     (Inr approx_info, {''downloads/abc.mp4''})
   \<and> status_code
       (fst (download ''http://h'' (fetching approx_info {''downloads/abc.mp4''}) ''abc'' ''u'' w0)) = 200
   \<and> integer_if_reported (approx_info ''filesize'')
   \<and> integer_if_reported (approx_info ''filesize_approx'')
   \<and> unreported_or_zero (approx_info ''filesize'')
   \<and> approx_info ''filesize_approx'' = Some (PInt 1572864)
   \<and> (0::int) < 1572864 \<and> (1572864::int) < 2 ^ 53
   \<and> field (fst (download ''http://h'' (fetching approx_info {''downloads/abc.mp4''}) ''abc'' ''u'' w0))
       ''fileSize'' = Some (PStr ''1.5 MB'')"
proof -
  let ?ydl = "fetching approx_info {''downloads/abc.mp4''}"
  note a = fetching_probe [of approx_info "{''downloads/abc.mp4''}"]
  note b = fetching_fetch [of approx_info "{''downloads/abc.mp4''}"]
  note c = fetching_status(4)
  have d: "integer_if_reported (approx_info ''filesize'')"
    and e: "integer_if_reported (approx_info ''filesize_approx'')"
    and f: "unreported_or_zero (approx_info ''filesize'')"
    and g: "approx_info ''filesize_approx'' = Some (PInt 1572864)"
    by (simp_all add: run_info)
  from approximate_size_is_used [where ydl = ?ydl, OF a b c d e]
  have "unreported_or_zero (approx_info ''filesize'')
        \<and> approx_info ''filesize_approx'' = Some (PInt 1572864)
        \<and> (0::int) < 1572864 \<and> (1572864::int) < 2 ^ 53 \<longrightarrow>
      field (fst (download ''http://h'' ?ydl ''abc'' ''u'' w0)) ''fileSize'' =
        Some (PStr (str_round_mb 1572864 @ '' MB''))"
    by blast
  with f g have "field (fst (download ''http://h'' ?ydl ''abc'' ''u'' w0)) ''fileSize'' =
      Some (PStr (str_round_mb 1572864 @ '' MB''))"
    by simp
  moreover have "str_round_mb 1572864 = ''1.5''"
    by (simp add: run_numbers)
  ultimately have h: "field (fst (download ''http://h'' ?ydl ''abc'' ''u'' w0)) ''fileSize'' =
      Some (PStr ''1.5 MB'')"
    by simp
  have i: "(0::int) < 1572864 \<and> (1572864::int) < 2 ^ 53"
    by simp
  from a b c d e f g h i show ?thesis by blast
qed

section \<open>Serving a file\<close>





end
